theory Spec2Isabelle
  imports Main "HOL-Library.Multiset"
begin

section \<open>The configuration object of the interactive shell\<close>

text \<open>
  \<^verbatim>\<open>ipython_config.py\<close> obtains the configuration object of its host with
  \<^verbatim>\<open>c = get_config()\<close> and performs nine attribute assignments of the form
  \<^verbatim>\<open>c.Section.option = literal\<close>. The values it assigns are booleans, strings and one
  list of strings; an object may hold other plain values already.
\<close>

datatype pyvalue =
    PyNone
  | PyBool bool
  | PyInt int
  | PyStr string
  | PyList "pyvalue list"

text \<open>
  The configuration object is a dictionary of named sections, each section a dictionary
  of named options. A section that was never touched is absent from the object.
\<close>

type_synonym pysection = "string \<rightharpoonup> pyvalue"

type_synonym config = "string \<rightharpoonup> pysection"

datatype error =
    AttributeError string
  | ValueError string

subsection \<open>The attribute protocol of the host's configuration class\<close>

text \<open>
  The class of the object that \<^verbatim>\<open>get_config()\<close> returns belongs to the host, not to the
  repository. Its attribute protocol is what gives \<^verbatim>\<open>c.Section.option = v\<close> a meaning:
  \<^item> a name is a section name when its first character is its own upper case and the
    name does not start with an underscore
    (\<^verbatim>\<open>key[0].upper() == key[0] and not key.startswith('_')\<close>);
  \<^item> reading an attribute that is present returns it; reading an absent section name
    stores a new empty section under that name and returns it; reading any other absent
    name raises \<^verbatim>\<open>AttributeError\<close>;
  \<^item> assigning to a section name a value that is not itself a section raises
    \<^verbatim>\<open>ValueError\<close>; every other assignment stores the value under the name.
\<close>

definition ascii_lowercase :: string where
  "ascii_lowercase = ''abcdefghijklmnopqrstuvwxyz''"

definition ascii_uppercase :: string where
  "ascii_uppercase = ''ABCDEFGHIJKLMNOPQRSTUVWXYZ''"

definition py_upper :: "char \<Rightarrow> char" where
  "py_upper ch =
     (case map_of (zip ascii_lowercase ascii_uppercase) ch of
        None \<Rightarrow> ch
      | Some u \<Rightarrow> u)"

definition is_section_key :: "string \<Rightarrow> bool" where
  "is_section_key key =
     (case key of
        [] \<Rightarrow> False
      | ch # _ \<Rightarrow> py_upper ch = ch \<and> ch \<noteq> CHR ''_'')"

text \<open>
  \<open>getattr_section c name\<close> is the read \<^verbatim>\<open>c.name\<close>: it returns the object, which has
  gained the section when the section was absent, together with the section read.
\<close>

definition getattr_section :: "config \<Rightarrow> string \<Rightarrow> error + config \<times> pysection" where
  "getattr_section c name =
     (case c name of
        Some sec \<Rightarrow> Inr (c, sec)
      | None \<Rightarrow>
          if is_section_key name then Inr (c(name \<mapsto> Map.empty), Map.empty)
          else Inl (AttributeError name))"

text \<open>
  \<open>setattr_option sec name v\<close> is the assignment \<^verbatim>\<open>sec.name = v\<close> of a plain value:
  a \<open>pyvalue\<close> is never a section, so a section name is refused.
\<close>

definition setattr_option :: "pysection \<Rightarrow> string \<Rightarrow> pyvalue \<Rightarrow> error + pysection" where
  "setattr_option sec name v =
     (if is_section_key name then Inl (ValueError name)
      else Inr (sec(name \<mapsto> v)))"

text \<open>The option \<^verbatim>\<open>c.Section.option\<close> as an observer reads it: absent, or its value.\<close>

definition option_of :: "config \<Rightarrow> string \<Rightarrow> string \<Rightarrow> pyvalue option" where
  "option_of c sname oname =
     (case c sname of
        None \<Rightarrow> None
      | Some sec \<Rightarrow> sec oname)"

section \<open>The configuration file\<close>

text \<open>
  One statement \<^verbatim>\<open>c.Section.option = literal\<close>. The section object read on the left is
  the one the configuration object holds, so the assignment is visible through \<open>c\<close>.
\<close>

datatype stmt = Assign string string pyvalue

fun exec :: "config \<Rightarrow> stmt \<Rightarrow> error + config" where
  "exec c (Assign sname oname v) =
     (case getattr_section c sname of
        Inl e \<Rightarrow> Inl e
      | Inr (c1, sec) \<Rightarrow>
          (case setattr_option sec oname v of
             Inl e \<Rightarrow> Inl e
           | Inr sec1 \<Rightarrow> Inr (c1(sname \<mapsto> sec1))))"

text \<open>Statements run in sequence; an exception ends the run.\<close>

fun run :: "config \<Rightarrow> stmt list \<Rightarrow> error + config" where
  "run c [] = Inr c"
| "run c (s # ss) =
     (case exec c s of
        Inl e \<Rightarrow> Inl e
      | Inr c1 \<Rightarrow> run c1 ss)"

text \<open>The nine assignments of \<^verbatim>\<open>ipython_config.py\<close>, in the order of the file.\<close>

definition assignments :: "stmt list" where
  "assignments =
     [Assign ''InteractiveShellApp'' ''extensions''
        (PyList [PyStr ''autoreload'', PyStr ''line_profiler'']),
      Assign ''InteractiveShell'' ''autoindent'' (PyBool True),
      Assign ''InteractiveShell'' ''colors'' (PyStr ''Linux''),
      Assign ''InteractiveShell'' ''confirm_exit'' (PyBool False),
      Assign ''InteractiveShell'' ''deep_reload'' (PyBool True),
      Assign ''InteractiveShell'' ''editor'' (PyStr ''vim''),
      Assign ''InteractiveShell'' ''xmode'' (PyStr ''Context''),
      Assign ''PromptManager'' ''justify'' (PyBool True),
      Assign ''PrefilterManager'' ''multi_line_specials'' (PyBool True)]"

text \<open>
  The whole file, run on the object \<open>c\<close> that \<^verbatim>\<open>get_config()\<close> hands out. The result is
  that object after the run, or the exception that ended it.
\<close>

definition ipython_config :: "config \<Rightarrow> error + config" where
  "ipython_config c = run c assignments"

text \<open>The section and option a statement assigns to.\<close>

fun target :: "stmt \<Rightarrow> string \<times> string" where
  "target (Assign sname oname v) = (sname, oname)"

definition targets :: "(string \<times> string) list" where
  "targets = map target assignments"

text \<open>The value a statement assigns, and the statement with another value in its place.\<close>

fun assigned :: "stmt \<Rightarrow> pyvalue" where
  "assigned (Assign sname oname v) = v"

fun reassign :: "(pyvalue \<Rightarrow> pyvalue) \<Rightarrow> stmt \<Rightarrow> stmt" where
  "reassign g (Assign sname oname v) = Assign sname oname (g v)"


definition option_keys :: "config \<Rightarrow> (string \<times> string) set" where
  "option_keys c = {(sname, oname). option_of c sname oname \<noteq> None}"

text \<open>
  Two starting objects: the empty object a host hands out before anything is configured,
  and an object whose four sections exist but hold no option yet.
\<close>

definition fresh_config :: config where
  "fresh_config = Map.empty"

definition bare_sections :: config where
  "bare_sections =
     [''InteractiveShellApp'' \<mapsto> Map.empty,
      ''InteractiveShell'' \<mapsto> Map.empty,
      ''PromptManager'' \<mapsto> Map.empty,
      ''PrefilterManager'' \<mapsto> Map.empty]"

section \<open>The effect of one assignment\<close>

text \<open>
  When the section name is a section name of the host and the option name is not, the
  assignment cannot fail and is a plain update of a nested dictionary.
\<close>

definition store :: "stmt \<Rightarrow> config \<Rightarrow> config" where
  "store s c =
     (case s of Assign sname oname v \<Rightarrow>
        c(sname \<mapsto> (case c sname of None \<Rightarrow> Map.empty | Some sec \<Rightarrow> sec)(oname \<mapsto> v)))"

fun well_named :: "stmt \<Rightarrow> bool" where
  "well_named (Assign sname oname v) = (is_section_key sname \<and> \<not> is_section_key oname)"

section \<open>Basic facts\<close>

lemma exec_well_named:
  assumes "well_named s"
  shows "exec c s = Inr (store s c)"
proof (cases s)
  case (Assign sname oname v)
  with assms have "is_section_key sname" and "\<not> is_section_key oname"
    by simp_all
  then show ?thesis
    unfolding Assign
    by (cases "c sname") (simp_all add: getattr_section_def setattr_option_def store_def)
qed

lemma run_well_named:
  assumes "list_all well_named ss"
  shows "run c ss = Inr (fold store ss c)"
  using assms
  by (induction ss arbitrary: c) (simp_all add: exec_well_named)

lemma well_named_assignments: "list_all well_named assignments"
  by (simp add: assignments_def is_section_key_def py_upper_def
      ascii_lowercase_def ascii_uppercase_def)

text \<open>
  Both exceptions of the protocol can be raised by an assignment of this form: a lower-case
  name in the place of the section, or a capitalised name in the place of the option.
\<close>

lemma exec_absent_lowercase_section:
  "exec Map.empty (Assign ''shell'' ''editor'' v) = Inl (AttributeError ''shell'')"
  by (simp add: getattr_section_def is_section_key_def py_upper_def
      ascii_lowercase_def ascii_uppercase_def)

lemma exec_capitalised_option:
  "exec c (Assign ''InteractiveShell'' ''Editor'' v) = Inl (ValueError ''Editor'')"
  by (cases "c ''InteractiveShell''")
    (simp_all add: getattr_section_def setattr_option_def is_section_key_def py_upper_def
      ascii_lowercase_def ascii_uppercase_def)

lemma ipython_config_fold: "ipython_config c = Inr (fold store assignments c)"
  unfolding ipython_config_def
  by (rule run_well_named) (rule well_named_assignments)

lemma targets_eq:
  "targets =
     [(''InteractiveShellApp'', ''extensions''),
      (''InteractiveShell'', ''autoindent''),
      (''InteractiveShell'', ''colors''),
      (''InteractiveShell'', ''confirm_exit''),
      (''InteractiveShell'', ''deep_reload''),
      (''InteractiveShell'', ''editor''),
      (''InteractiveShell'', ''xmode''),
      (''PromptManager'', ''justify''),
      (''PrefilterManager'', ''multi_line_specials'')]"
  by (simp add: targets_def assignments_def)

lemma distinct_targets: "distinct targets"
  by (simp add: targets_eq)

lemma option_of_store:
  "option_of (store s c) sname oname =
     (if target s = (sname, oname) then Some (assigned s) else option_of c sname oname)"
  by (cases s) (auto simp: store_def option_of_def split: option.splits)

lemma dom_store: "dom (store s c) = insert (fst (target s)) (dom c)"
  by (cases s) (auto simp: store_def)

lemma option_keys_store: "option_keys (store s c) = insert (target s) (option_keys c)"
  by (auto simp: option_keys_def option_of_store)

lemma option_of_fold_other:
  assumes "(sname, oname) \<notin> set (map target ss)"
  shows "option_of (fold store ss c) sname oname = option_of c sname oname"
  using assms
  by (induction ss arbitrary: c) (auto simp: option_of_store)

lemma dom_fold: "dom (fold store ss c) = dom c \<union> fst ` set (map target ss)"
  by (induction ss arbitrary: c) (auto simp: dom_store)

lemma option_keys_fold: "option_keys (fold store ss c) = option_keys c \<union> set (map target ss)"
  by (induction ss arbitrary: c) (auto simp: option_keys_store)

text \<open>
  Two objects are the same object when they have the same sections and every option reads
  the same in both.
\<close>

lemma config_eqI:
  fixes c d :: config
  assumes sections: "dom c = dom d"
    and options: "\<And>sname oname. option_of c sname oname = option_of d sname oname"
  shows "c = d"
proof (rule ext)
  fix sname
  show "c sname = d sname"
  proof (cases "c sname")
    case None
    with sections show ?thesis
      by (metis domIff)
  next
    case (Some sec)
    with sections obtain sec' where d: "d sname = Some sec'"
      by (metis domIff option.exhaust)
    have "sec oname = sec' oname" for oname
      using options [of sname oname] Some d by (simp add: option_of_def)
    then have "sec = sec'"
      by (rule ext)
    with Some d show ?thesis
      by simp
  qed
qed

lemma store_commute:
  assumes "target s \<noteq> target t"
  shows "store s (store t c) = store t (store s c)"
  by (rule config_eqI) (use assms in \<open>auto simp: dom_store option_of_store\<close>)

text \<open>The last assignment to a key decides what the key holds after a run.\<close>

lemma option_of_fold:
  "option_of (fold store ss c) sname oname =
     (case map_of (rev (map (\<lambda>s. (target s, assigned s)) ss)) (sname, oname) of
        None \<Rightarrow> option_of c sname oname
      | Some v \<Rightarrow> Some v)"
proof (induction ss arbitrary: c)
  case Nil
  show ?case
    by simp
next
  case (Cons s ss)
  show ?case
    by (simp add: Cons.IH option_of_store map_add_def split: option.splits)
qed

lemma fold_store_twice: "fold store ss (fold store ss c) = fold store ss c"
  by (rule config_eqI) (auto simp: dom_fold option_of_fold split: option.splits)

lemma assignments_pairwise:
  assumes "s \<in> set assignments" and "t \<in> set assignments"
  shows "store s (store t c) = store t (store s c)"
proof (cases "s = t")
  case True
  then show ?thesis
    by simp
next
  case False
  have "inj_on target (set assignments)"
    using distinct_targets by (simp add: targets_def distinct_map)
  with assms False have "target s \<noteq> target t"
    by (auto dest: inj_onD)
  then show ?thesis
    by (rule store_commute)
qed

lemma well_named_member:
  assumes "s \<in> set assignments"
  shows "well_named s"
  using assms well_named_assignments by (simp add: list_all_iff)

section \<open>The properties of the configuration file\<close>

text \<open>
  Claim C1. For every object the host hands out, the run of the file ends without an
  exception, and afterwards each of the nine options reads as the literal of its
  assignment: \<^verbatim>\<open>extensions\<close> is the list \<^verbatim>\<open>['autoreload', 'line_profiler']\<close>,
  \<^verbatim>\<open>autoindent\<close> is true, \<^verbatim>\<open>colors\<close> is \<^verbatim>\<open>'Linux'\<close>, \<^verbatim>\<open>confirm_exit\<close> is false,
  \<^verbatim>\<open>deep_reload\<close> is true, \<^verbatim>\<open>editor\<close> is \<^verbatim>\<open>'vim'\<close>, \<^verbatim>\<open>xmode\<close> is \<^verbatim>\<open>'Context'\<close>,
  \<^verbatim>\<open>justify\<close> is true and \<^verbatim>\<open>multi_line_specials\<close> is true.
\<close>

theorem options_equal_literals:
  "\<exists>c'. ipython_config c = Inr c' \<and>
     option_of c' ''InteractiveShellApp'' ''extensions'' =
       Some (PyList [PyStr ''autoreload'', PyStr ''line_profiler'']) \<and>
     option_of c' ''InteractiveShell'' ''autoindent'' = Some (PyBool True) \<and>
     option_of c' ''InteractiveShell'' ''colors'' = Some (PyStr ''Linux'') \<and>
     option_of c' ''InteractiveShell'' ''confirm_exit'' = Some (PyBool False) \<and>
     option_of c' ''InteractiveShell'' ''deep_reload'' = Some (PyBool True) \<and>
     option_of c' ''InteractiveShell'' ''editor'' = Some (PyStr ''vim'') \<and>
     option_of c' ''InteractiveShell'' ''xmode'' = Some (PyStr ''Context'') \<and>
     option_of c' ''PromptManager'' ''justify'' = Some (PyBool True) \<and>
     option_of c' ''PrefilterManager'' ''multi_line_specials'' = Some (PyBool True)"
  by (simp add: ipython_config_fold assignments_def option_of_store)

text \<open>
  Claim C2. After the run, \<^verbatim>\<open>extensions\<close> is exactly the two-element list
  \<^verbatim>\<open>['autoreload', 'line_profiler']\<close>, in that order: on every object, and in particular
  on an object whose \<^verbatim>\<open>extensions\<close> held any value \<open>v0\<close> before.
\<close>

theorem extensions_exact:
  "(\<exists>c'. ipython_config c = Inr c' \<and>
      option_of c' ''InteractiveShellApp'' ''extensions'' =
        Some (PyList [PyStr ''autoreload'', PyStr ''line_profiler''])) \<and>
   (\<exists>c'. ipython_config (c(''InteractiveShellApp'' \<mapsto> sec(''extensions'' \<mapsto> v0))) = Inr c' \<and>
      option_of c' ''InteractiveShellApp'' ''extensions'' =
        Some (PyList [PyStr ''autoreload'', PyStr ''line_profiler'']))"
  by (simp add: ipython_config_fold assignments_def option_of_store)

text \<open>
  Claim C3. An option that is not one of the nine targets of the file reads after the run
  as it read before: absent if it was absent, and with its prior value otherwise.
\<close>

theorem unrelated_option_unchanged:
  assumes "(sname, oname) \<notin> set targets"
  shows "\<exists>c'. ipython_config c = Inr c' \<and> option_of c' sname oname = option_of c sname oname"
  using assms by (simp add: ipython_config_fold targets_def option_of_fold_other)

theorem unrelated_option_unchanged_witness:
  "(''InteractiveShell'', ''history_length'') \<notin> set targets \<and>
   (\<exists>c'. ipython_config [''InteractiveShell'' \<mapsto> [''history_length'' \<mapsto> PyInt 1000]] = Inr c' \<and>
      option_of c' ''InteractiveShell'' ''history_length'' = Some (PyInt 1000))"
  using unrelated_option_unchanged
    [of "''InteractiveShell''" "''history_length''"
        "[''InteractiveShell'' \<mapsto> [''history_length'' \<mapsto> PyInt 1000]]"]
  by (simp add: targets_eq option_of_def)

text \<open>
  Claim C4. On a fresh object, a second run of the file changes nothing: it ends without
  an exception and leaves the object exactly as the first run left it.
\<close>

theorem twice_on_fresh:
  "\<exists>c1. ipython_config fresh_config = Inr c1 \<and> ipython_config c1 = Inr c1"
  by (simp add: ipython_config_fold fold_store_twice)

text \<open>
  Claim C5. On the empty object, after the run \<^verbatim>\<open>confirm_exit\<close> is false, and
  \<^verbatim>\<open>autoindent\<close>, \<^verbatim>\<open>deep_reload\<close>, \<^verbatim>\<open>justify\<close> and \<^verbatim>\<open>multi_line_specials\<close> are true.
\<close>

theorem fresh_booleans:
  "\<exists>c'. ipython_config fresh_config = Inr c' \<and>
     option_of c' ''InteractiveShell'' ''confirm_exit'' = Some (PyBool False) \<and>
     option_of c' ''InteractiveShell'' ''autoindent'' = Some (PyBool True) \<and>
     option_of c' ''InteractiveShell'' ''deep_reload'' = Some (PyBool True) \<and>
     option_of c' ''PromptManager'' ''justify'' = Some (PyBool True) \<and>
     option_of c' ''PrefilterManager'' ''multi_line_specials'' = Some (PyBool True)"
  by (simp add: ipython_config_fold assignments_def option_of_store)

text \<open>
  Claim C6. The nine assignments commute: run in any order \<open>ss\<close> (any list with the same
  statements as the file), they give the outcome of the file, from every starting object;
  and any two of them give the same outcome in either order.
\<close>

theorem any_order:
  assumes "mset ss = mset assignments"
  shows "run c ss = ipython_config c \<and>
    list_all (\<lambda>(s, t). run c [s, t] = run c [t, s]) (List.product assignments assignments)"
proof
  have set_eq: "set ss = set assignments"
    using assms by (rule mset_eq_setD)
  then have "list_all well_named ss"
    using well_named_assignments by (simp add: list_all_iff)
  then have "run c ss = Inr (fold store ss c)"
    by (rule run_well_named)
  moreover have "fold store assignments = fold store ss"
  proof (rule fold_multiset_equiv)
    fix s t
    assume "s \<in> set assignments" and "t \<in> set assignments"
    then have "store s (store t d) = store t (store s d)" for d
      by (rule assignments_pairwise)
    then show "store s \<circ> store t = store t \<circ> store s"
      by (simp add: fun_eq_iff)
  next
    show "mset assignments = mset ss"
      using assms by simp
  qed
  ultimately show "run c ss = ipython_config c"
    by (simp add: ipython_config_fold)
next
  have "run c [s, t] = run c [t, s]"
    if "s \<in> set assignments" and "t \<in> set assignments" for s t
    using that
    by (simp add: exec_well_named well_named_member assignments_pairwise)
  then show "list_all (\<lambda>(s, t). run c [s, t] = run c [t, s])
      (List.product assignments assignments)"
    by (auto simp: list_all_iff)
qed

theorem any_order_witness:
  "mset (rev assignments) = mset assignments \<and>
   run fresh_config (rev assignments) = ipython_config fresh_config \<and>
   list_all (\<lambda>(s, t). run fresh_config [s, t] = run fresh_config [t, s])
     (List.product assignments assignments)"
  using any_order [of "rev assignments" fresh_config] by simp

text \<open>
  Claim C7. The run of the file ends without an exception on every object, and that does
  not depend on the values assigned: with any other values \<open>g v\<close> in place of the
  literals, the nine assignments still all succeed, so no value is validated.
\<close>

theorem loader_total:
  "(\<exists>c'. ipython_config c = Inr c') \<and>
   (\<exists>c'. run c (map (reassign g) assignments) = Inr c')"
proof
  show "\<exists>c'. ipython_config c = Inr c'"
    by (simp add: ipython_config_fold)
next
  have "well_named (reassign g s) = well_named s" for s
    by (cases s) simp
  then have "list_all well_named (map (reassign g) assignments)"
    using well_named_assignments by (simp add: list_all_iff)
  then show "\<exists>c'. run c (map (reassign g) assignments) = Inr c'"
    by (simp add: run_well_named)
qed

text \<open>
  Claim C8 says that the file never introduces a key that the object did not hold. It
  does: on an object whose sections hold no option, \<^verbatim>\<open>InteractiveShell.editor\<close> is absent
  before the run and present after it; and on the empty object the section
  \<^verbatim>\<open>InteractiveShell\<close> itself is absent before and present after.
\<close>

theorem new_keys_counterexample:
  "\<not> isl (ipython_config bare_sections) \<and>
   (''InteractiveShell'', ''editor'') \<notin> option_keys bare_sections \<and>
   (''InteractiveShell'', ''editor'') \<in> option_keys (projr (ipython_config bare_sections)) \<and>
   \<not> isl (ipython_config fresh_config) \<and>
   ''InteractiveShell'' \<notin> dom fresh_config \<and>
   ''InteractiveShell'' \<in> dom (projr (ipython_config fresh_config))"
proof -
  have before: "(''InteractiveShell'', ''editor'') \<notin> option_keys bare_sections"
    by (simp add: option_keys_def option_of_def bare_sections_def)
  have "option_keys (fold store assignments bare_sections) = option_keys bare_sections \<union> set targets"
    by (simp add: option_keys_fold targets_def)
  then have after: "(''InteractiveShell'', ''editor'') \<in> option_keys (fold store assignments bare_sections)"
    by (simp add: targets_eq)
  have "dom (fold store assignments fresh_config) = dom fresh_config \<union> fst ` set targets"
    by (simp add: dom_fold targets_def)
  then have section_after: "''InteractiveShell'' \<in> dom (fold store assignments fresh_config)"
    by (simp add: targets_eq)
  have section_before: "''InteractiveShell'' \<notin> dom fresh_config"
    by (simp add: fresh_config_def)
  from before after section_before section_after show ?thesis
    by (simp add: ipython_config_fold)
qed

text \<open>
  Claim C8, amended. The file assigns to its nine targets whether or not the object holds
  them: after the run the sections of the object are those it had together with the
  sections of the nine targets, and its option keys are those it had together with the
  nine targets. So a key is new after the run exactly when it is one of these and was
  absent before; no other key is introduced and none is removed.
\<close>

theorem keys_after_load:
  "\<exists>c'. ipython_config c = Inr c' \<and>
     dom c' = dom c \<union> fst ` set targets \<and>
     option_keys c' = option_keys c \<union> set targets"
  by (simp add: ipython_config_fold dom_fold option_keys_fold targets_def)


text \<open>
  Claim C10. The file is idempotent on every object: a second run ends without an
  exception and leaves the object exactly as the first run left it.
\<close>

theorem twice_on_any:
  "\<exists>c1. ipython_config c = Inr c1 \<and> ipython_config c1 = Inr c1"
  by (simp add: ipython_config_fold fold_store_twice)

end
